theory Spec2Isabelle
  imports Complex_Main
begin

section \<open>Hodgkin-Huxley simulator (lampe/simulators/hh.py)\<close>

text \<open>
  Numbers are modelled as real numbers. The continuous part of the computation (the
  rate functions, the state of the integrator, the statistics) is read as exact
  arithmetic on \<open>\<real>\<close>. Where rounding decides a discrete outcome, it is modelled:
  the length and the values of the time grid, and the comparisons of grid values with
  the window bounds, round every operation to float64 as the source does. Where the
  source can produce a value that is not a finite number (a quotient with divisor zero,
  a reduction over an empty slice), and a property below is about that value, the value
  is an \<open>option\<close>: \<open>None\<close> stands for the non-finite result (NaN or an infinity).

  An array whose trailing axis has length \<open>T\<close> and whose leading axes form the batch
  shape is the list of its \<open>T\<close> slices \<open>x[..., k]\<close>; a slice is a function from the
  batch index to the element. All arithmetic of the source is element-wise, so it is
  written for one element and lifted over the batch index.
\<close>

subsection \<open>Exceptions\<close>

datatype error =
    KeyError string
  | ZeroDivisionError
  | ValueError
  | IndexError
  | OverflowError

definition bind_res :: "error + 'a \<Rightarrow> ('a \<Rightarrow> error + 'b) \<Rightarrow> error + 'b" where
  "bind_res r f = (case r of Inl e \<Rightarrow> Inl e | Inr v \<Rightarrow> f v)"

subsection \<open>Float64 arithmetic\<close>

text \<open>
  Rounding to the nearest float64, ties to the even significand: a non-zero \<open>x\<close> with
  \<open>2^e \<le> |x| < 2^(e+1)\<close> is rounded to a multiple of \<open>2^(e-52)\<close>. The exponent range
  of float64 is not modelled (no overflow to infinity, no subnormal numbers). Each
  arithmetic operation on floats is the exact operation followed by this rounding.
\<close>

definition rne :: "real \<Rightarrow> int" where
  "rne y =
     (let f = \<lfloor>y\<rfloor>; r = y - of_int f
      in if r < 1 / 2 then f else if 1 / 2 < r then f + 1 else if even f then f else f + 1)"

definition binade :: "real \<Rightarrow> int" where
  "binade x = \<lfloor>log 2 \<bar>x\<bar>\<rfloor>"

definition round53 :: "real \<Rightarrow> real" where
  "round53 x =
     (if x = 0 then 0
      else let u = 2 powi (binade x - 52) in of_int (rne (x / u)) * u)"

definition fadd :: "real \<Rightarrow> real \<Rightarrow> real" where
  "fadd a b = round53 (a + b)"

definition fsub :: "real \<Rightarrow> real \<Rightarrow> real" where
  "fsub a b = round53 (a - b)"

definition fmul :: "real \<Rightarrow> real \<Rightarrow> real" where
  "fmul a b = round53 (a * b)"

definition fdiv :: "real \<Rightarrow> real \<Rightarrow> real" where
  "fdiv a b = round53 (a / b)"

subsection \<open>Parameters and constants\<close>

text \<open>One row \<open>theta[..., 0:8]\<close> of the parameter array.\<close>

record theta =
  g_Na :: real
  g_K :: real
  g_M :: real
  g_leak :: real
  tau_max :: real
  V_t :: real
  sigma :: real
  E_leak :: real

text \<open>
  The constants dictionary, and the subscript \<open>constants['k']\<close>. The values of the
  dictionary are Python floats: a real stored in the model's dictionary stands for the
  float nearest to it (as a decimal literal does), and that float is what the subscript
  returns.
\<close>

type_synonym dict = "string \<rightharpoonup> real"

definition subscript :: "dict \<Rightarrow> string \<Rightarrow> error + real" where
  "subscript d k = (case d k of None \<Rightarrow> Inl (KeyError k) | Some v \<Rightarrow> Inr (round53 v))"

definition C :: real where "C = 1"
definition E_Na :: real where "E_Na = 53"
definition E_K :: real where "E_K = -107"

subsection \<open>Kinetics\<close>

text \<open>
  \<open>np.where(c, a, b)\<close> selects between two arrays that Python has already computed
  in full: both \<open>1 - x / 2\<close> and \<open>x / (exp(x) - 1)\<close> are evaluated for every element
  before the selection. \<open>efun_operands\<close> is the triple of evaluated arguments, the
  quotient being \<open>None\<close> where its divisor is zero.
\<close>

definition np_where :: "bool \<Rightarrow> 'a \<Rightarrow> 'a \<Rightarrow> 'a" where
  "np_where c a b = (if c then a else b)"

definition np_true_divide :: "real \<Rightarrow> real \<Rightarrow> real option" where
  "np_true_divide a b = (if b = 0 then None else Some (a / b))"

definition efun_operands :: "real \<Rightarrow> bool \<times> real option \<times> real option" where
  "efun_operands x =
     (\<bar>x\<bar> < 0.0001, Some (1 - x / 2), np_true_divide x (exp x - 1))"

definition efun_value :: "real \<Rightarrow> real option" where
  "efun_value x = (case efun_operands x of (c, a, b) \<Rightarrow> np_where c a b)"

text \<open>The selected value as a number (\<open>efun_value\<close> is never \<open>None\<close>, see below).\<close>

definition efun :: "real \<Rightarrow> real" where
  "efun x = np_where (\<bar>x\<bar> < 0.0001) (1 - x / 2) (x / (exp x - 1))"

definition alpha_n :: "real \<Rightarrow> real" where
  "alpha_n x = 0.032 * efun (-0.2 * (x - 15)) / 0.2"

definition beta_n :: "real \<Rightarrow> real" where
  "beta_n x = 0.5 * exp (-(x - 10) / 40)"

definition tau_n :: "real \<Rightarrow> real" where
  "tau_n x = 1 / (alpha_n x + beta_n x)"

definition n_inf :: "real \<Rightarrow> real" where
  "n_inf x = alpha_n x / (alpha_n x + beta_n x)"

definition alpha_m :: "real \<Rightarrow> real" where
  "alpha_m x = 0.32 * efun (-0.25 * (x - 13)) / 0.25"

definition beta_m :: "real \<Rightarrow> real" where
  "beta_m x = 0.28 * efun (0.2 * (x - 40)) / 0.2"

definition tau_m :: "real \<Rightarrow> real" where
  "tau_m x = 1 / (alpha_m x + beta_m x)"

definition m_inf :: "real \<Rightarrow> real" where
  "m_inf x = alpha_m x / (alpha_m x + beta_m x)"

definition alpha_h :: "real \<Rightarrow> real" where
  "alpha_h x = 0.128 * exp (-(x - 17) / 18)"

definition beta_h :: "real \<Rightarrow> real" where
  "beta_h x = 4 / (1 + exp (-0.2 * (x - 40)))"

definition tau_h :: "real \<Rightarrow> real" where
  "tau_h x = 1 / (alpha_h x + beta_h x)"

definition h_inf :: "real \<Rightarrow> real" where
  "h_inf x = alpha_h x / (alpha_h x + beta_h x)"

text \<open>\<open>tau_p\<close> closes over the parameter \<open>tau_max\<close>.\<close>

definition tau_p :: "theta \<Rightarrow> real \<Rightarrow> real" where
  "tau_p \<theta> x = tau_max \<theta> / (3.3 * exp (0.05 * (x + 35)) + exp (-0.05 * (x + 35)))"

definition p_inf :: "real \<Rightarrow> real" where
  "p_inf x = 1 / (1 + exp (-0.1 * (x + 35)))"

subsection \<open>The integrator \<open>voltage_trace\<close>\<close>

text \<open>The values read from the dictionary at the head of \<open>voltage_trace\<close>.\<close>

record hh_constants =
  duration :: real
  time_step :: real
  padding :: real
  initial_voltage :: real
  current :: real

definition read_constants :: "dict \<Rightarrow> error + hh_constants" where
  "read_constants d =
     bind_res (subscript d ''duration'') (\<lambda>T.
     bind_res (subscript d ''time_step'') (\<lambda>dt.
     bind_res (subscript d ''padding'') (\<lambda>pad.
     bind_res (subscript d ''initial_voltage'') (\<lambda>V_0.
     bind_res (subscript d ''current'') (\<lambda>I.
       Inr \<lparr>duration = T, time_step = dt, padding = pad,
            initial_voltage = V_0, current = I\<rparr>)))))"

text \<open>The state of one batch element: the voltage and the four gating variables.\<close>

record hh_state =
  st_V :: real
  st_n :: real
  st_m :: real
  st_h :: real
  st_p :: real

definition init_state :: "theta \<Rightarrow> hh_constants \<Rightarrow> hh_state" where
  "init_state \<theta> c =
     (let V = initial_voltage c;
          V_rel = V - V_t \<theta>
      in \<lparr>st_V = V, st_n = n_inf V_rel, st_m = m_inf V_rel, st_h = h_inf V_rel,
          st_p = p_inf V\<rparr>)"

definition tau_V :: "theta \<Rightarrow> hh_state \<Rightarrow> real" where
  "tau_V \<theta> s =
     C / (g_Na \<theta> * st_m s ^ 3 * st_h s
          + g_K \<theta> * st_n s ^ 4
          + g_M \<theta> * st_p s
          + g_leak \<theta>)"

text \<open>
  \<open>z\<close> is this element's draw of \<open>np.random.randn\<close> in the current iteration.
  \<open>dt ** 0.5\<close> is the square root for \<open>dt \<ge> 0\<close>. For a negative \<open>dt\<close> Python
  yields a complex number, which the model does not follow; the noise term is zero in
  either reading when \<open>sigma = 0\<close>. The stimulus indicator compares the grid value
  \<open>t\<close> with the floats \<open>pad\<close> and \<open>T - pad\<close>.
\<close>

definition V_inf :: "theta \<Rightarrow> hh_constants \<Rightarrow> real \<Rightarrow> real \<Rightarrow> hh_state \<Rightarrow> real" where
  "V_inf \<theta> c t z s =
     tau_V \<theta> s * (
        E_Na * g_Na \<theta> * st_m s ^ 3 * st_h s
        + E_K * g_K \<theta> * st_n s ^ 4
        + E_K * g_M \<theta> * st_p s
        + E_leak \<theta> * g_leak \<theta>
        + current c * of_bool (padding c \<le> t \<and> t < fsub (duration c) (padding c))
        + sigma \<theta> * z / sqrt (time_step c)
     ) / C"

text \<open>One pass through the body of the time-step loop, for one batch element.\<close>

definition step :: "theta \<Rightarrow> hh_constants \<Rightarrow> real \<Rightarrow> real \<Rightarrow> hh_state \<Rightarrow> hh_state" where
  "step \<theta> c t z s =
     (let dt = time_step c;
          tau = tau_V \<theta> s;
          Vi = V_inf \<theta> c t z s;
          V = Vi + (st_V s - Vi) * exp (- dt / tau);
          V_rel = V - V_t \<theta>;
          n = n_inf V_rel + (st_n s - n_inf V_rel) * exp (- dt / tau_n V_rel);
          m = m_inf V_rel + (st_m s - m_inf V_rel) * exp (- dt / tau_m V_rel);
          h = h_inf V_rel + (st_h s - h_inf V_rel) * exp (- dt / tau_h V_rel);
          p = p_inf V + (st_p s - p_inf V) * exp (- dt / tau_p \<theta> V)
      in \<lparr>st_V = V, st_n = n, st_m = m, st_h = h, st_p = p\<rparr>)"

text \<open>
  \<open>np.arange(start, stop, step)\<close> on floats. The length is the ceiling of the float
  quotient \<open>(stop - start) / step\<close>; the division raises for a zero step, and a length
  that the index type cannot hold raises. The first two values are \<open>start\<close> and
  \<open>start + step\<close>, and value \<open>i\<close> is \<open>start + i * delta\<close> with
  \<open>delta = (start + step) - start\<close>, each operation rounded.
\<close>

definition arange_length :: "real \<Rightarrow> real \<Rightarrow> real \<Rightarrow> int" where
  "arange_length start stop stp = \<lceil>fdiv (fsub stop start) stp\<rceil>"

definition arange_fill :: "real \<Rightarrow> real \<Rightarrow> nat \<Rightarrow> real" where
  "arange_fill start stp i =
     (let nxt = fadd start stp;
          delta = fsub nxt start
      in if i = 0 then start
         else if i = 1 then nxt
         else fadd start (fmul (real i) delta))"

definition np_arange :: "real \<Rightarrow> real \<Rightarrow> real \<Rightarrow> error + real list" where
  "np_arange start stop stp =
     (if stp = 0 then Inl ZeroDivisionError
      else let len = arange_length start stop stp
           in if len < - (2 ^ 63) \<or> 2 ^ 63 \<le> len then Inl OverflowError
              else Inr (map (arange_fill start stp) [0..<nat len]))"

text \<open>
  \<open>np.expand_dims(theta, axis=0)\<close> puts a leading axis of length one in front of the
  batch axes, and \<open>squeeze(axis=0)\<close> removes it from the result.
\<close>

definition expand_dims0 :: "('i \<Rightarrow> 'a) \<Rightarrow> (unit \<times> 'i \<Rightarrow> 'a)" where
  "expand_dims0 a = (\<lambda>(u, b). a b)"

definition squeeze0 :: "(unit \<times> 'i \<Rightarrow> 'a) list \<Rightarrow> ('i \<Rightarrow> 'a) list" where
  "squeeze0 x = map (\<lambda>v b. v ((), b)) x"

text \<open>
  \<open>np.stack(arrays, axis=-1)\<close>: the arrays become the slices along the new trailing
  axis; an empty list raises.
\<close>

definition np_stack_last :: "'a list \<Rightarrow> error + 'a list" where
  "np_stack_last arrays = (if arrays = [] then Inl ValueError else Inr arrays)"

text \<open>
  The loop \<open>for i, t in enumerate(timesteps)\<close>. The accumulator is the batch of states
  and the list \<open>voltages\<close>; \<open>randn i\<close> is the array drawn in iteration \<open>i\<close>.
\<close>

definition body ::
  "('j \<Rightarrow> theta) \<Rightarrow> hh_constants \<Rightarrow> (nat \<Rightarrow> 'j \<Rightarrow> real) \<Rightarrow>
   ('j \<Rightarrow> hh_state) \<times> ('j \<Rightarrow> real) list \<Rightarrow> nat \<times> real \<Rightarrow>
   ('j \<Rightarrow> hh_state) \<times> ('j \<Rightarrow> real) list" where
  "body \<Theta> c randn acc it =
     (case acc of (S, voltages) \<Rightarrow>
      case it of (i, t) \<Rightarrow>
        let S' = (\<lambda>b. step (\<Theta> b) c t (randn i b) (S b))
        in (S', voltages @ [\<lambda>b. st_V (S' b)]))"

definition loop ::
  "('j \<Rightarrow> theta) \<Rightarrow> hh_constants \<Rightarrow> (nat \<Rightarrow> 'j \<Rightarrow> real) \<Rightarrow> real list \<Rightarrow>
   ('j \<Rightarrow> hh_state) \<times> ('j \<Rightarrow> real) list" where
  "loop \<Theta> c randn timesteps =
     foldl (body \<Theta> c randn) (\<lambda>b. init_state (\<Theta> b) c, []) (enumerate 0 timesteps)"

definition voltage_trace ::
  "('i \<Rightarrow> theta) \<Rightarrow> dict \<Rightarrow> (nat \<Rightarrow> unit \<times> 'i \<Rightarrow> real) \<Rightarrow> error + ('i \<Rightarrow> real) list" where
  "voltage_trace th d randn =
     bind_res (read_constants d) (\<lambda>c.
     bind_res (np_arange 0 (duration c) (time_step c)) (\<lambda>timesteps.
     bind_res (np_stack_last (snd (loop (expand_dims0 th) c randn timesteps))) (\<lambda>x.
       Inr (squeeze0 x))))"

text \<open>The batch of states after the first \<open>k\<close> iterations of the loop.\<close>

definition state_after ::
  "('j \<Rightarrow> theta) \<Rightarrow> hh_constants \<Rightarrow> (nat \<Rightarrow> 'j \<Rightarrow> real) \<Rightarrow> real list \<Rightarrow> nat \<Rightarrow>
   ('j \<Rightarrow> hh_state)" where
  "state_after \<Theta> c randn timesteps k = fst (loop \<Theta> c randn (take k timesteps))"

subsection \<open>The summarizer \<open>summarize\<close>\<close>

text \<open>The one-dimensional array \<open>x[b, :]\<close> of batch element \<open>b\<close>.\<close>

definition row :: "('i \<Rightarrow> 'a) list \<Rightarrow> 'i \<Rightarrow> 'a list" where
  "row x b = map (\<lambda>v. v b) x"

definition np_maximum :: "real list \<Rightarrow> real \<Rightarrow> real list" where
  "np_maximum xs c = map (\<lambda>v. max v c) xs"

text \<open>\<open>np.diff\<close>: \<open>a[1:] - a[:-1]\<close>.\<close>

definition np_diff :: "real list \<Rightarrow> real list" where
  "np_diff a = map2 (\<lambda>hi lo. hi - lo) (tl a) (butlast a)"

definition np_sign :: "real list \<Rightarrow> real list" where
  "np_sign a = map sgn a"

text \<open>\<open>np.sum(a < 0, axis=-1)\<close>.\<close>

definition count_negative :: "real list \<Rightarrow> nat" where
  "count_negative a = length (filter (\<lambda>d. d < 0) a)"

definition spike_count :: "real list \<Rightarrow> nat" where
  "spike_count xs = count_negative (np_diff (np_sign (np_diff (np_maximum xs (-10)))))"

text \<open>
  \<open>x[..., mask]\<close> with a boolean mask: the slices whose mask entry is true; the mask
  must be as long as the axis.
\<close>

definition bool_index :: "'a list \<Rightarrow> bool list \<Rightarrow> error + 'a list" where
  "bool_index x msk =
     (if length msk \<noteq> length x then Inl IndexError
      else Inr (map fst (filter snd (zip x msk))))"

text \<open>
  The reductions of numpy and scipy along the last axis, with the population (biased)
  normalisation of their defaults. Over an empty slice each of them is NaN (\<open>None\<close>).
  Over a slice of zero variance \<open>skew\<close> and \<open>kurtosis\<close> put \<open>0\<close> in place of the
  quotient.
\<close>

definition np_mean :: "real list \<Rightarrow> real option" where
  "np_mean a = (if a = [] then None else Some (sum_list a / real (length a)))"

definition moment :: "nat \<Rightarrow> real list \<Rightarrow> real option" where
  "moment k a =
     (case np_mean a of
        None \<Rightarrow> None
      | Some mu \<Rightarrow> np_mean (map (\<lambda>v. (v - mu) ^ k) a))"

definition np_var :: "real list \<Rightarrow> real option" where
  "np_var a = moment 2 a"

definition np_std :: "real list \<Rightarrow> real option" where
  "np_std a = map_option sqrt (np_var a)"

definition sp_skew :: "real list \<Rightarrow> real option" where
  "sp_skew a =
     (case (moment 2 a, moment 3 a) of
        (Some m2, Some m3) \<Rightarrow> Some (if m2 = 0 then 0 else m3 / (m2 * sqrt m2))
      | _ \<Rightarrow> None)"

definition sp_kurtosis :: "real list \<Rightarrow> real option" where
  "sp_kurtosis a =
     (case (moment 2 a, moment 4 a) of
        (Some m2, Some m4) \<Rightarrow> Some ((if m2 = 0 then 0 else m4 / m2 ^ 2) - 3)
      | _ \<Rightarrow> None)"

definition summarize :: "('i \<Rightarrow> real) list \<Rightarrow> dict \<Rightarrow> error + ('i \<Rightarrow> real option) list" where
  "summarize x d =
     bind_res (subscript d ''duration'') (\<lambda>T.
     bind_res (subscript d ''time_step'') (\<lambda>dt.
     bind_res (subscript d ''padding'') (\<lambda>pad.
     bind_res (np_arange 0 T dt) (\<lambda>t.
       let spikes = (\<lambda>b. Some (real (spike_count (row x b)))) in
       bind_res (bool_index x (map (\<lambda>t. fdiv pad 2 \<le> t \<and> t < pad) t)) (\<lambda>rest.
         let rest_mean = (\<lambda>b. np_mean (row rest b));
             rest_std = (\<lambda>b. np_std (row rest b))
         in
         bind_res (bool_index x (map (\<lambda>t. pad \<le> t \<and> t < fsub T pad) t)) (\<lambda>x.
           let x_mean = (\<lambda>b. np_mean (row x b));
               x_var = (\<lambda>b. np_var (row x b));
               x_skew = (\<lambda>b. sp_skew (row x b));
               x_kurtosis = (\<lambda>b. sp_kurtosis (row x b))
           in np_stack_last
                [spikes, rest_mean, rest_std, x_mean, x_var, x_skew, x_kurtosis]))))))"

subsection \<open>The simulator object \<open>HH\<close>\<close>

record HH =
  constants :: dict
  summary :: bool

definition default_constants :: "(string \<times> real) list" where
  "default_constants =
     [(''duration'', 80),
      (''time_step'', 0.02),
      (''padding'', 10),
      (''initial_voltage'', -70),
      (''current'', 0.0005 / (pi * 0.007 ^ 2))]"

text \<open>\<open>kwargs.get(k, v)\<close>.\<close>

definition get :: "dict \<Rightarrow> string \<Rightarrow> real \<Rightarrow> real" where
  "get kwargs k v = (case kwargs k of None \<Rightarrow> v | Some w \<Rightarrow> w)"

text \<open>
  \<open>HH.__init__(summary=True, **kwargs)\<close>; the first argument is \<open>None\<close> when the
  caller leaves \<open>summary\<close> out.
\<close>

definition HH_init :: "bool option \<Rightarrow> dict \<Rightarrow> HH" where
  "HH_init summary_arg kwargs =
     \<lparr>constants = map_of (map (\<lambda>(k, v). (k, get kwargs k v)) default_constants),
      summary = (case summary_arg of None \<Rightarrow> True | Some s \<Rightarrow> s)\<rparr>"

subsection \<open>Notions of the specification\<close>

text \<open>The exponential-update rule \<open>x \<leftarrow> x_inf + (x - x_inf) * exp(-dt / tau)\<close>.\<close>

definition exp_update :: "real \<Rightarrow> real \<Rightarrow> real \<Rightarrow> real \<Rightarrow> real" where
  "exp_update x_inf x dt tau = x_inf + (x - x_inf) * exp (- dt / tau)"

text \<open>The trace clipped from below at \<open>-10\<close>.\<close>

definition clipped :: "real list \<Rightarrow> real list" where
  "clipped xs = map (\<lambda>v. max v (-10)) xs"

text \<open>
  Local maxima of a sequence, counted over its interior indices: strictly above both
  neighbours, or not below either neighbour.
\<close>

definition strict_local_maxima :: "real list \<Rightarrow> nat" where
  "strict_local_maxima y =
     length (filter (\<lambda>k. y ! k < y ! (k + 1) \<and> y ! (k + 2) < y ! (k + 1)) [0..<length y - 2])"

definition weak_local_maxima :: "real list \<Rightarrow> nat" where
  "weak_local_maxima y =
     length (filter (\<lambda>k. y ! k \<le> y ! (k + 1) \<and> y ! (k + 2) \<le> y ! (k + 1)) [0..<length y - 2])"

subsection \<open>Example inputs\<close>

text \<open>
  The midpoint of the parameter bounds, the same parameters without noise, and the
  default constants.
\<close>

definition theta_mid :: theta where
  "theta_mid =
     \<lparr>g_Na = 40.25, g_K = 7.5, g_M = 0.3, g_leak = 0.3, tau_max = 1525, V_t = -65,
      sigma = 0.075, E_leak = -67.5\<rparr>"

definition theta_quiet :: theta where
  "theta_quiet = theta_mid\<lparr>sigma := 0\<rparr>"

definition constants_default :: hh_constants where
  "constants_default =
     \<lparr>duration = 80, time_step = 0.02, padding = 10, initial_voltage = -70,
      current = 0.0005 / (pi * 0.007 ^ 2)\<rparr>"

text \<open>
  Small constants dictionaries and traces: a grid of two points none of which lies in
  either window, and a grid of six points with one resting and two stimulus samples.
\<close>

definition dict_small :: dict where
  "dict_small = [''duration'' \<mapsto> 2, ''time_step'' \<mapsto> 1, ''padding'' \<mapsto> 5]"

definition dict_six :: dict where
  "dict_six = [''duration'' \<mapsto> 6, ''time_step'' \<mapsto> 1, ''padding'' \<mapsto> 2]"

definition trace_six :: "(unit \<Rightarrow> real) list" where
  "trace_six = [\<lambda>b. - 70, \<lambda>b. - 69, \<lambda>b. 20, \<lambda>b. - 30, \<lambda>b. - 75, \<lambda>b. - 70]"

definition trace_two :: "(unit \<Rightarrow> real) list" where
  "trace_two = [\<lambda>b. 1, \<lambda>b. 2]"

text \<open>
  Constants with duration \<open>2.1\<close> and time step \<open>0.3\<close>; constants with duration
  \<open>1.1\<close>, time step \<open>0.1\<close> and padding \<open>0.2\<close>; traces of three and of eleven
  samples.
\<close>

definition dict_21_03 :: dict where
  "dict_21_03 =
     [''duration'' \<mapsto> 2.1, ''time_step'' \<mapsto> 0.3, ''padding'' \<mapsto> 0.5,
      ''initial_voltage'' \<mapsto> -70, ''current'' \<mapsto> 0]"

definition dict_11_01 :: dict where
  "dict_11_01 = [''duration'' \<mapsto> 1.1, ''time_step'' \<mapsto> 0.1, ''padding'' \<mapsto> 0.2]"

definition trace_eleven :: "(unit \<Rightarrow> real) list" where
  "trace_eleven = map (\<lambda>k b. real k) [0..<11]"

definition trace_three :: "(unit \<Rightarrow> real) list" where
  "trace_three = [\<lambda>b. 1, \<lambda>b. 2, \<lambda>b. 3]"

section \<open>Properties\<close>

subsection \<open>The rate helper \<open>efun\<close>\<close>

lemma efun_value_eq: "efun_value x = Some (efun x)"
  by (simp add: efun_value_def efun_operands_def efun_def np_where_def np_true_divide_def)

lemma efun_eq: "efun x = (if \<bar>x\<bar> < 0.0001 then 1 - x / 2 else x / (exp x - 1))"
  by (simp add: efun_def np_where_def)

text \<open>
  C4, as stated, fails: the division by \<open>exp(x) - 1\<close> is not confined to the elements
  with \<open>|x| \<ge> 1e-4\<close>. At \<open>x = 0\<close> the first branch is the one selected, and the
  quotient operand has been computed all the same, with divisor \<open>exp(0) - 1 = 0\<close>.
\<close>

theorem efun_divides_at_zero:
  "efun_operands 0 = (True, Some 1, None)"
  by (simp add: efun_operands_def np_true_divide_def)

text \<open>
  C4, amended: for every real \<open>x\<close> the value that \<open>efun\<close> returns is \<open>1 - x/2\<close> when
  \<open>|x| < 1e-4\<close> and \<open>x / (exp(x) - 1)\<close> otherwise; it is never a non-finite value,
  because wherever the quotient is the selected operand its divisor \<open>exp(x) - 1\<close> is
  not zero; and \<open>efun(0) = 1\<close>.
\<close>

theorem efun_selected_value:
  "efun_value x = Some (if \<bar>x\<bar> < 0.0001 then 1 - x / 2 else x / (exp x - 1))
   \<and> (\<not> \<bar>x\<bar> < 0.0001 \<longrightarrow> exp x - 1 \<noteq> 0)
   \<and> efun_value 0 = Some 1
   \<and> efun_value x = Some (efun x)"
  by (auto simp add: efun_value_def efun_operands_def efun_def np_where_def np_true_divide_def)

theorem efun_selected_value_witness:
  "efun_value 1 = Some (1 / (exp 1 - 1)) \<and> exp (1::real) - 1 \<noteq> 0 \<and> efun_value 0 = Some 1"
  using efun_selected_value [of 1] by simp

subsection \<open>The time-step loop\<close>

lemma fst_body:
  "fst (body \<Theta> c randn acc (i, t)) = (\<lambda>b. step (\<Theta> b) c t (randn i b) (fst acc b))"
  by (simp add: body_def Let_def split: prod.split)

lemma snd_body:
  "snd (body \<Theta> c randn acc (i, t)) =
     snd acc @ [\<lambda>b. st_V (step (\<Theta> b) c t (randn i b) (fst acc b))]"
  by (simp add: body_def Let_def split: prod.split)

lemma loop_Nil: "loop \<Theta> c randn [] = (\<lambda>b. init_state (\<Theta> b) c, [])"
  by (simp add: loop_def)

lemma loop_snoc:
  "loop \<Theta> c randn (ts @ [t]) = body \<Theta> c randn (loop \<Theta> c randn ts) (length ts, t)"
  by (simp add: loop_def enumerate_append_eq)

lemma loop_take_Suc:
  "k < length ts \<Longrightarrow>
   loop \<Theta> c randn (take (Suc k) ts) = body \<Theta> c randn (loop \<Theta> c randn (take k ts)) (k, ts ! k)"
  by (simp add: take_Suc_conv_app_nth loop_snoc)

text \<open>
  The full loop passes through the result of the loop over the first \<open>k\<close> time steps:
  that result is the state after \<open>k\<close> iterations, which \<open>state_after\<close> names.
\<close>

lemma enumerate_take: "enumerate n (take k ts) = take k (enumerate n ts)"
  by (induction ts arbitrary: n k) (simp_all add: take_Cons split: nat.split)

lemma loop_split:
  "loop \<Theta> c randn ts =
     foldl (body \<Theta> c randn) (loop \<Theta> c randn (take k ts)) (drop k (enumerate 0 ts))"
proof -
  have "enumerate 0 ts = enumerate 0 (take k ts) @ drop k (enumerate 0 ts)"
    by (simp add: enumerate_take)
  then have "foldl (body \<Theta> c randn) (\<lambda>b. init_state (\<Theta> b) c, []) (enumerate 0 ts)
      = foldl (body \<Theta> c randn) (\<lambda>b. init_state (\<Theta> b) c, [])
          (enumerate 0 (take k ts) @ drop k (enumerate 0 ts))"
    by simp
  then show ?thesis by (simp add: loop_def)
qed

lemma state_after_0: "state_after \<Theta> c randn ts 0 b = init_state (\<Theta> b) c"
  by (simp add: state_after_def loop_Nil)

lemma state_after_Suc:
  "k < length ts \<Longrightarrow>
   state_after \<Theta> c randn ts (Suc k) b =
     step (\<Theta> b) c (ts ! k) (randn k b) (state_after \<Theta> c randn ts k b)"
  by (simp add: state_after_def loop_take_Suc fst_body)

lemma length_voltages: "length (snd (loop \<Theta> c randn ts)) = length ts"
  by (induction ts rule: rev_induct) (simp_all add: loop_Nil loop_snoc snd_body)

lemma voltages_nth:
  "k < length ts \<Longrightarrow>
   snd (loop \<Theta> c randn ts) ! k = (\<lambda>b. st_V (state_after \<Theta> c randn ts (Suc k) b))"
proof (induction ts rule: rev_induct)
  case Nil
  then show ?case by simp
next
  case (snoc t ts)
  show ?case
  proof (cases "k < length ts")
    case True
    with snoc.IH have "snd (loop \<Theta> c randn ts) ! k = (\<lambda>b. st_V (state_after \<Theta> c randn ts (Suc k) b))"
      by simp
    moreover from True have "take (Suc k) (ts @ [t]) = take (Suc k) ts" by simp
    ultimately show ?thesis using True
      by (simp add: loop_snoc snd_body nth_append length_voltages state_after_def)
  next
    case False
    with snoc.prems have k: "k = length ts" by simp
    show ?thesis
      by (simp add: k loop_snoc snd_body nth_append length_voltages state_after_def fst_body)
  qed
qed

text \<open>
  C1: in every iteration of the loop (iteration \<open>k\<close>, at time \<open>t = timesteps[k]\<close>, for
  every batch element \<open>b\<close>) the state is advanced by the exponential-update rule: the
  voltage towards \<open>V_inf\<close> with time constant \<open>tau_V\<close>, both computed from the state
  before the iteration; then \<open>n\<close>, \<open>m\<close>, \<open>h\<close> with their rate functions evaluated at
  the new \<open>V_rel = V - V_t\<close>; and \<open>p\<close> with \<open>p_inf\<close> and \<open>tau_p\<close> evaluated at the new
  absolute voltage \<open>V\<close>. The voltage appended to the trace is the new one.
\<close>

theorem loop_iteration_exp_update:
  assumes "k < length timesteps"
  shows "let s = state_after \<Theta> c randn timesteps k b;
             s' = state_after \<Theta> c randn timesteps (Suc k) b;
             t = timesteps ! k;
             dt = time_step c;
             V_rel = st_V s' - V_t (\<Theta> b)
         in st_V s' = exp_update (V_inf (\<Theta> b) c t (randn k b) s) (st_V s) dt (tau_V (\<Theta> b) s)
          \<and> st_n s' = exp_update (n_inf V_rel) (st_n s) dt (tau_n V_rel)
          \<and> st_m s' = exp_update (m_inf V_rel) (st_m s) dt (tau_m V_rel)
          \<and> st_h s' = exp_update (h_inf V_rel) (st_h s) dt (tau_h V_rel)
          \<and> st_p s' = exp_update (p_inf (st_V s')) (st_p s) dt (tau_p (\<Theta> b) (st_V s'))
          \<and> (snd (loop \<Theta> c randn timesteps) ! k) b = st_V s'"
  using assms
  by (simp add: state_after_Suc voltages_nth Let_def step_def exp_update_def)

theorem loop_iteration_exp_update_witness:
  "0 < length [0 :: real, 0.02]
   \<and> (let s = state_after (\<lambda>b :: unit. theta_mid) constants_default (\<lambda>i b. 1) [0, 0.02] 0 ();
          s' = state_after (\<lambda>b :: unit. theta_mid) constants_default (\<lambda>i b. 1) [0, 0.02] (Suc 0) ();
          V_rel = st_V s' - V_t theta_mid
      in st_V s' = exp_update (V_inf theta_mid constants_default 0 1 s) (st_V s)
                     (time_step constants_default) (tau_V theta_mid s)
       \<and> st_n s' = exp_update (n_inf V_rel) (st_n s) (time_step constants_default) (tau_n V_rel)
       \<and> st_p s' = exp_update (p_inf (st_V s')) (st_p s) (time_step constants_default)
                     (tau_p theta_mid (st_V s')))"
  using loop_iteration_exp_update
    [of 0 "[0, 0.02]" "\<lambda>b :: unit. theta_mid" constants_default "\<lambda>i b. 1" "()"]
  by (simp add: Let_def)

subsection \<open>Float64 rounding\<close>

lemma bind_res_Inr [simp]: "bind_res (Inr v) f = f v"
  by (simp add: bind_res_def)

lemma bind_res_Inl [simp]: "bind_res (Inl e) f = Inl e"
  by (simp add: bind_res_def)

lemma powr_powi: "(2 :: real) powr (of_int k) = 2 powi k"
  by (simp add: powr_real_of_int')

lemma binade_bounds:
  assumes "x \<noteq> 0"
  shows "2 powi (binade x) \<le> \<bar>x\<bar>" "\<bar>x\<bar> < 2 powi (binade x + 1)"
proof -
  from assms have pos: "0 < \<bar>x\<bar>" by simp
  have "2 powr (of_int (binade x)) \<le> \<bar>x\<bar> \<and> \<bar>x\<bar> < 2 powr (of_int (binade x) + 1)"
    using floor_log_eq_powr_iff [OF pos, of 2 "binade x"] by (simp add: binade_def)
  then have "2 powr (of_int (binade x)) \<le> \<bar>x\<bar>" "\<bar>x\<bar> < 2 powr (of_int (binade x + 1))"
    by simp_all
  then show "2 powi (binade x) \<le> \<bar>x\<bar>" "\<bar>x\<bar> < 2 powi (binade x + 1)"
    unfolding powr_powi by simp_all
qed

lemma binade_eq:
  assumes "2 powi e \<le> \<bar>x\<bar>" "\<bar>x\<bar> < 2 powi (e + 1)"
  shows "binade x = e"
proof -
  have pos: "0 < \<bar>x\<bar>" using assms(1) by (smt (verit) zero_less_power_int)
  have "2 powr (of_int e) \<le> \<bar>x\<bar>" "\<bar>x\<bar> < 2 powr (of_int (e + 1))"
    unfolding powr_powi using assms by simp_all
  then have "2 powr (of_int e) \<le> \<bar>x\<bar> \<and> \<bar>x\<bar> < 2 powr (of_int e + 1)" by simp
  then show ?thesis
    unfolding binade_def using pos floor_log_eq_powr_iff [of "\<bar>x\<bar>" 2 e] by simp
qed

lemma round53_at:
  assumes "2 powi e \<le> \<bar>x\<bar>" "\<bar>x\<bar> < 2 powi (e + 1)"
  shows "round53 x = of_int (rne (x / 2 powi (e - 52))) * 2 powi (e - 52)"
proof -
  have "x \<noteq> 0" using assms(1) by (smt (verit) zero_less_power_int)
  then show ?thesis by (simp add: round53_def binade_eq [OF assms] Let_def)
qed

lemma rne_ge_floor: "\<lfloor>y\<rfloor> \<le> rne y"
  by (simp add: rne_def Let_def)

lemma round53_pos:
  assumes "0 < x"
  shows "0 < round53 x"
proof -
  let ?u = "(2 :: real) powi (binade x - 52)"
  have u: "0 < ?u" by simp
  from assms binade_bounds(1) [of x] have "2 powi (binade x) \<le> x" by simp
  moreover have "(2 :: real) powi (52 + (binade x - 52)) = 2 powi 52 * ?u"
    by (rule power_int_add) simp
  ultimately have "2 powi 52 * ?u \<le> x" by simp
  then have "2 powi 52 \<le> x / ?u" using u by (simp add: pos_le_divide_eq)
  then have "(1 :: real) \<le> x / ?u" by (smt (verit) one_le_power_int zero_le_numeral)
  then have "1 \<le> \<lfloor>x / ?u\<rfloor>" by (simp add: le_floor_iff)
  with rne_ge_floor [of "x / ?u"] have "1 \<le> rne (x / ?u)" by linarith
  then have "0 < of_int (rne (x / ?u)) * ?u" using u by simp
  with assms show ?thesis by (simp add: round53_def Let_def)
qed

lemma round53_80: "round53 80 = 80"
  by (subst round53_at [where e = 6]) (simp_all add: rne_def Let_def power_int_minus)

lemma round53_4000: "round53 4000 = 4000"
  by (subst round53_at [where e = 11]) (simp_all add: rne_def Let_def power_int_minus)

lemma round53_002: "round53 (1 / 50) = 5764607523034235 / 288230376151711744"
  by (subst round53_at [where e = "- 6"]) (simp_all add: rne_def Let_def power_int_minus)

lemma fdiv_80_002: "fdiv 80 (round53 (1 / 50)) = 4000"
  unfolding fdiv_def round53_002
  by (subst round53_at [where e = 11]) (simp_all add: rne_def Let_def power_int_minus)

lemma arange_length_default:
  "arange_length 0 80 (round53 (1 / 50)) = 4000" "arange_length 0 80 (1 / 50) = 4000"
  by (simp_all add: arange_length_def fsub_def round53_80 fdiv_80_002)
    (simp add: fdiv_def round53_4000)


subsection \<open>The trace returned by \<open>voltage_trace\<close>\<close>

lemma np_arange_Inr:
  assumes "stp \<noteq> 0" "- (2 ^ 63) \<le> arange_length start stop stp"
    "arange_length start stop stp < 2 ^ 63"
  shows "np_arange start stop stp =
    Inr (map (arange_fill start stp) [0..<nat (arange_length start stop stp)])"
  using assms by (simp add: np_arange_def Let_def)

lemma np_arange_Inr_iff:
  "np_arange start stop stp = Inr t \<longleftrightarrow>
     stp \<noteq> 0 \<and> - (2 ^ 63) \<le> arange_length start stop stp
     \<and> arange_length start stop stp < 2 ^ 63
     \<and> t = map (arange_fill start stp) [0..<nat (arange_length start stop stp)]"
  by (auto simp add: np_arange_def Let_def)

lemma arange_length_pos:
  assumes "0 < T" "0 < dt"
  shows "1 \<le> arange_length 0 T dt"
proof -
  have "0 < round53 T" using assms(1) by (rule round53_pos)
  then have "0 < round53 T / dt" using assms(2) by simp
  then have "0 < round53 (round53 T / dt)" by (rule round53_pos)
  then show ?thesis by (simp add: arange_length_def fsub_def fdiv_def)
qed

lemma voltage_trace_ok:
  assumes "read_constants d = Inr c" "np_arange 0 (duration c) (time_step c) = Inr ts" "ts \<noteq> []"
  shows "voltage_trace th d randn = Inr (squeeze0 (snd (loop (expand_dims0 th) c randn ts)))"
proof -
  have "snd (loop (expand_dims0 th) c randn ts) \<noteq> []"
    using assms(3) length_voltages [of "expand_dims0 th" c randn ts] by auto
  then show ?thesis
    using assms by (simp add: voltage_trace_def np_stack_last_def)
qed

lemma voltage_trace_grid:
  assumes "read_constants d = Inr c" "0 < duration c" "0 < time_step c"
    and "arange_length 0 (duration c) (time_step c) < 2 ^ 63"
  shows "\<exists>x. voltage_trace th d randn = Inr x
           \<and> int (length x) = arange_length 0 (duration c) (time_step c)"
proof -
  let ?len = "arange_length 0 (duration c) (time_step c)"
  let ?ts = "map (arange_fill 0 (time_step c)) [0..<nat ?len]"
  have pos: "1 \<le> ?len" using assms(2,3) by (rule arange_length_pos)
  then have ar: "np_arange 0 (duration c) (time_step c) = Inr ?ts"
    using assms(3,4) by (intro np_arange_Inr) simp_all
  from pos have ne: "?ts \<noteq> []" by simp
  have "voltage_trace th d randn = Inr (squeeze0 (snd (loop (expand_dims0 th) c randn ?ts)))"
    by (rule voltage_trace_ok [OF assms(1) ar ne])
  moreover have "int (length (squeeze0 (snd (loop (expand_dims0 th) c randn ?ts)))) = ?len"
    using pos by (simp add: squeeze0_def length_voltages)
  ultimately show ?thesis by blast
qed

lemma read_default:
  "read_constants (constants (HH_init None Map.empty)) =
     Inr \<lparr>duration = 80, time_step = round53 (1 / 50), padding = round53 10,
          initial_voltage = round53 (- 70),
          current = round53 (0.0005 / (pi * 0.007 ^ 2))\<rparr>"
  by (simp add: read_constants_def HH_init_def default_constants_def get_def subscript_def
      round53_80)

lemma read_21_03:
  "read_constants dict_21_03 =
     Inr \<lparr>duration = round53 (21 / 10), time_step = round53 (3 / 10),
          padding = round53 (1 / 2), initial_voltage = round53 (- 70), current = 0\<rparr>"
  by (simp add: read_constants_def dict_21_03_def subscript_def round53_def)

lemma round53_21: "round53 (21 / 10) = 4728779608739021 / 2251799813685248"
  by (subst round53_at [where e = 1]) (simp_all add: rne_def Let_def power_int_minus)

lemma round53_03: "round53 (3 / 10) = 5404319552844595 / 18014398509481984"
  by (subst round53_at [where e = "- 2"]) (simp_all add: rne_def Let_def power_int_minus)

lemma round53_21_again:
  "round53 (4728779608739021 / 2251799813685248) = 4728779608739021 / 2251799813685248"
  by (subst round53_at [where e = 1]) (simp_all add: rne_def Let_def power_int_minus)

lemma round53_03_again:
  "round53 (5404319552844595 / 18014398509481984) = 5404319552844595 / 18014398509481984"
  by (subst round53_at [where e = "- 2"]) (simp_all add: rne_def Let_def power_int_minus)

lemma fdiv_21_03:
  "fdiv (4728779608739021 / 2251799813685248) (5404319552844595 / 18014398509481984)
     = 7881299347898369 / 1125899906842624"
  unfolding fdiv_def
  by (subst round53_at [where e = 2]) (simp_all add: rne_def Let_def power_int_minus)

lemma fmul_7_03:
  "fmul 7 (5404319552844595 / 18014398509481984) = 4728779608739021 / 2251799813685248"
  unfolding fmul_def
  by (subst round53_at [where e = 1]) (simp_all add: rne_def Let_def power_int_minus)

lemma arange_length_21_03:
  "arange_length 0 (round53 (21 / 10)) (round53 (3 / 10)) = 8"
  by (simp add: arange_length_def fsub_def round53_21 round53_03 round53_21_again fdiv_21_03)

lemma arange_fill_21_03:
  "arange_fill 0 (round53 (3 / 10)) 7 = round53 (21 / 10)"
  by (simp add: arange_fill_def Let_def fadd_def fsub_def round53_21 round53_03
      round53_03_again fmul_7_03 round53_21_again)

text \<open>
  C2, as stated, fails: the length of the trace is not always the number of grid points
  below the duration. With duration \<open>2.1\<close> and time step \<open>0.3\<close> the float quotient
  is just above \<open>7\<close>, so the trace has \<open>8\<close> samples, and the last grid point,
  \<open>7 * 0.3\<close> rounded, is the duration itself. The ceiling of the quotient of the
  decimals is \<open>7\<close>.
\<close>

theorem voltage_trace_grid_reaches_duration:
  "\<exists>x. voltage_trace (\<lambda>b :: unit. theta_mid) dict_21_03 (\<lambda>i b. 0) = Inr x
      \<and> length x = 8
      \<and> arange_fill 0 (round53 (3 / 10)) 7 = round53 (21 / 10)
      \<and> \<lceil>(21 / 10) / (3 / 10) :: real\<rceil> = 7"
proof -
  have "0 < round53 (21 / 10)" "0 < round53 (3 / 10)"
    by (simp_all add: round53_21 round53_03)
  from voltage_trace_grid [OF read_21_03, of "\<lambda>b :: unit. theta_mid" "\<lambda>i b. 0"] this
  obtain x where "voltage_trace (\<lambda>b :: unit. theta_mid) dict_21_03 (\<lambda>i b. 0) = Inr x"
    and "int (length x) = 8"
    by (auto simp add: arange_length_21_03)
  then show ?thesis by (auto simp add: arange_fill_21_03)
qed

text \<open>
  C2, amended: for every parameter array and constants with \<open>duration > 0\<close> and
  \<open>time_step > 0\<close> (and a grid length the index type can hold), \<open>voltage_trace\<close>
  returns a trace (it does not raise) whose time axis has length \<open>T\<close>, the ceiling of
  the float64 quotient \<open>duration / time_step\<close>, which is at least one; its batch axes
  are those of the parameter array. For \<open>duration = 80\<close> and \<open>time_step = 0.02\<close> the
  length is \<open>4000\<close>.
\<close>

theorem voltage_trace_float_length:
  assumes "read_constants d = Inr c" "0 < duration c" "0 < time_step c"
    and "\<lceil>fdiv (fsub (duration c) 0) (time_step c)\<rceil> < 2 ^ 63"
  shows "\<exists>x. voltage_trace th d randn = Inr x
           \<and> int (length x) = \<lceil>fdiv (fsub (duration c) 0) (time_step c)\<rceil>
           \<and> 1 \<le> length x
           \<and> (duration c = 80 \<and> time_step c = round53 0.02 \<longrightarrow> length x = 4000)"
proof -
  let ?len = "arange_length 0 (duration c) (time_step c)"
  have l: "?len = \<lceil>fdiv (fsub (duration c) 0) (time_step c)\<rceil>"
    by (simp add: arange_length_def)
  from assms(4) have b: "?len < 2 ^ 63" unfolding l .
  from voltage_trace_grid [OF assms(1-3) b]
  obtain x where x: "voltage_trace th d randn = Inr x" and len: "int (length x) = ?len"
    by blast
  have pos: "1 \<le> ?len" using assms(2,3) by (rule arange_length_pos)
  with len have one: "1 \<le> length x" by linarith
  have dflt: "length x = 4000" if "duration c = 80 \<and> time_step c = round53 0.02"
  proof -
    from that have "?len = 4000" by (simp add: arange_length_default)
    with len show ?thesis by linarith
  qed
  from x len one dflt show ?thesis unfolding l by blast
qed

theorem voltage_trace_float_length_witness:
  "\<exists>x. voltage_trace (\<lambda>b :: unit. theta_mid) (constants (HH_init None Map.empty)) (\<lambda>i b. 1) = Inr x
     \<and> length x = 4000"
proof -
  let ?c = "\<lparr>duration = 80, time_step = round53 (1 / 50), padding = round53 10,
          initial_voltage = round53 (- 70),
          current = round53 (0.0005 / (pi * 0.007 ^ 2))\<rparr>"
  have p: "0 < duration ?c" "0 < time_step ?c"
    by (simp_all add: round53_002)
  have b: "\<lceil>fdiv (fsub (duration ?c) 0) (time_step ?c)\<rceil> < 2 ^ 63"
    using arange_length_default(1) by (simp add: arange_length_def)
  have e: "duration ?c = 80 \<and> time_step ?c = round53 0.02"
    by simp
  from voltage_trace_float_length [OF read_default p b, of "\<lambda>b :: unit. theta_mid" "\<lambda>i b. 1"] e
  show ?thesis by blast
qed

subsection \<open>Determinism without noise\<close>

lemma V_inf_quiet: "sigma \<theta> = 0 \<Longrightarrow> V_inf \<theta> c t z s = V_inf \<theta> c t z' s"
  by (simp add: V_inf_def)

lemma step_quiet: "sigma \<theta> = 0 \<Longrightarrow> step \<theta> c t z s = step \<theta> c t z' s"
  by (simp add: step_def V_inf_quiet [of \<theta> c t z s z'])

lemma loop_quiet:
  assumes "\<forall>b. sigma (\<Theta> b) = 0"
  shows "loop \<Theta> c randn1 ts = loop \<Theta> c randn2 ts"
proof (induction ts rule: rev_induct)
  case Nil
  show ?case by (simp add: loop_Nil)
next
  case (snoc t ts)
  have "\<And>i b s. step (\<Theta> b) c t (randn1 i b) s = step (\<Theta> b) c t (randn2 i b) s"
    using assms by (simp add: step_quiet)
  then have "\<And>acc i. body \<Theta> c randn1 acc (i, t) = body \<Theta> c randn2 acc (i, t)"
    by (simp add: body_def Let_def split: prod.split)
  with snoc show ?case by (simp add: loop_snoc)
qed

text \<open>
  C7: when the \<open>sigma\<close> component of every parameter row is \<open>0\<close>, the result of
  \<open>voltage_trace\<close> does not depend on the Gaussian draws: any two streams of draws
  give the same result for the same parameters and constants.
\<close>

theorem voltage_trace_noise_independent:
  assumes "\<forall>b. sigma (th b) = 0"
  shows "voltage_trace th d randn1 = voltage_trace th d randn2"
proof -
  from assms have "\<forall>b. sigma (expand_dims0 th b) = 0"
    by (simp add: expand_dims0_def split: prod.split)
  then have "\<And>c ts. loop (expand_dims0 th) c randn1 ts = loop (expand_dims0 th) c randn2 ts"
    by (rule loop_quiet)
  then show ?thesis by (simp add: voltage_trace_def)
qed

theorem voltage_trace_noise_independent_witness:
  "voltage_trace (\<lambda>b :: unit. theta_quiet) (constants (HH_init None Map.empty)) (\<lambda>i b. 1)
   = voltage_trace (\<lambda>b :: unit. theta_quiet) (constants (HH_init None Map.empty)) (\<lambda>i b. - 1)"
  using voltage_trace_noise_independent [of "\<lambda>b :: unit. theta_quiet"]
  by (simp add: theta_quiet_def)

subsection \<open>The summary vector\<close>

lemma bool_index_nths:
  assumes "length x = n"
  shows "bool_index x (map Q [0..<n]) = Inr (nths x {k. Q k})"
proof -
  have z: "zip x (map Q [0..<n]) = map (\<lambda>(a, k). (a, Q k)) (zip x [0..<n])"
    by (simp add: zip_map2)
  have "map fst (filter snd (zip x (map Q [0..<n])))
        = map fst (filter (\<lambda>p. snd p \<in> {k. Q k}) (zip x [0..<n]))"
    unfolding z by (simp add: filter_map comp_def case_prod_unfold)
  then show ?thesis using assms by (simp add: bool_index_def nths_def)
qed

lemma np_arange_grid:
  assumes "np_arange 0 T dt = Inr t"
  shows "t = map (arange_fill 0 dt) [0..<length t]"
  using assms by (auto simp add: np_arange_Inr_iff)

lemma summarize_eq:
  assumes "subscript d ''duration'' = Inr T" "subscript d ''time_step'' = Inr dt"
    "subscript d ''padding'' = Inr pad"
    and "np_arange 0 T dt = Inr t" "length x = length t"
  shows "summarize x d =
    Inr [\<lambda>b. Some (real (spike_count (row x b))),
         \<lambda>b. np_mean (row (nths x {k. fdiv pad 2 \<le> arange_fill 0 dt k \<and> arange_fill 0 dt k < pad}) b),
         \<lambda>b. np_std (row (nths x {k. fdiv pad 2 \<le> arange_fill 0 dt k \<and> arange_fill 0 dt k < pad}) b),
         \<lambda>b. np_mean (row (nths x {k. pad \<le> arange_fill 0 dt k \<and> arange_fill 0 dt k < fsub T pad}) b),
         \<lambda>b. np_var (row (nths x {k. pad \<le> arange_fill 0 dt k \<and> arange_fill 0 dt k < fsub T pad}) b),
         \<lambda>b. sp_skew (row (nths x {k. pad \<le> arange_fill 0 dt k \<and> arange_fill 0 dt k < fsub T pad}) b),
         \<lambda>b. sp_kurtosis (row (nths x {k. pad \<le> arange_fill 0 dt k \<and> arange_fill 0 dt k < fsub T pad}) b)]"
proof -
  let ?g = "arange_fill 0 dt"
  obtain n where n: "n = length t" by simp
  from np_arange_grid [OF assms(4)] n have t: "t = map ?g [0..<n]" by simp
  from assms(5) n have lx: "length x = n" by simp
  have ar: "np_arange 0 T dt = Inr (map ?g [0..<n])" using assms(4) t by simp
  have m1: "bool_index x (map (\<lambda>t. fdiv pad 2 \<le> t \<and> t < pad) (map ?g [0..<n]))
            = Inr (nths x {k. fdiv pad 2 \<le> ?g k \<and> ?g k < pad})"
    using bool_index_nths [OF lx, of "\<lambda>k. fdiv pad 2 \<le> ?g k \<and> ?g k < pad"]
    by (simp add: comp_def)
  have m2: "bool_index x (map (\<lambda>t. pad \<le> t \<and> t < fsub T pad) (map ?g [0..<n]))
            = Inr (nths x {k. pad \<le> ?g k \<and> ?g k < fsub T pad})"
    using bool_index_nths [OF lx, of "\<lambda>k. pad \<le> ?g k \<and> ?g k < fsub T pad"]
    by (simp add: comp_def)
  show ?thesis
    unfolding summarize_def
    by (simp only: assms(1-3) bind_res_Inr ar
        m1 m2 Let_def np_stack_last_def list.distinct if_False)
qed

lemma bind_res_eq_Inr: "bind_res r f = Inr y \<longleftrightarrow> (\<exists>v. r = Inr v \<and> f v = Inr y)"
  by (cases r) simp_all

lemma read_constants_Inr:
  "read_constants d = Inr c \<Longrightarrow>
   subscript d ''duration'' = Inr (duration c) \<and> subscript d ''time_step'' = Inr (time_step c)
   \<and> subscript d ''padding'' = Inr (padding c)"
  by (auto simp add: read_constants_def bind_res_eq_Inr)

lemma voltage_trace_Inr_grid:
  assumes "voltage_trace th d randn = Inr x"
    and "subscript d ''duration'' = Inr T" "subscript d ''time_step'' = Inr dt"
  shows "\<exists>t. np_arange 0 T dt = Inr t \<and> length x = length t"
proof -
  from assms(1) obtain c ts where c: "read_constants d = Inr c"
    and ts: "np_arange 0 (duration c) (time_step c) = Inr ts"
    and x: "x = squeeze0 (snd (loop (expand_dims0 th) c randn ts))"
    by (auto simp add: voltage_trace_def bind_res_eq_Inr np_stack_last_def split: if_splits)
  from read_constants_Inr [OF c] assms(2,3) have eq: "duration c = T" "time_step c = dt"
    by simp_all
  have "length x = length ts" by (simp add: x squeeze0_def length_voltages)
  with ts eq show ?thesis by auto
qed

lemma nths_empty_iff: "nths x A = [] \<longleftrightarrow> (\<forall>k<length x. k \<notin> A)"
proof -
  have "nths x A = [] \<longleftrightarrow> set (nths x A) = {}" by simp
  also have "\<dots> \<longleftrightarrow> (\<forall>k<length x. k \<notin> A)" by (auto simp add: set_nths)
  finally show ?thesis .
qed

lemma empty_reductions:
  "np_mean [] = None" "np_var [] = None" "np_std [] = None" "sp_skew [] = None"
  "sp_kurtosis [] = None"
  by (simp_all add: np_mean_def np_var_def np_std_def sp_skew_def sp_kurtosis_def moment_def)

lemma round53_small:
  "round53 1 = 1" "round53 2 = 2" "round53 5 = 5" "round53 (5 / 2) = 5 / 2"
  "round53 10 = 10"
      apply (subst round53_at [where e = 0]; simp add: rne_def Let_def power_int_minus)
     apply (subst round53_at [where e = 1]; simp add: rne_def Let_def power_int_minus)
    apply (subst round53_at [where e = 2]; simp add: rne_def Let_def power_int_minus)
   apply (subst round53_at [where e = 1]; simp add: rne_def Let_def power_int_minus)
  apply (subst round53_at [where e = 3]; simp add: rne_def Let_def power_int_minus)
  done

lemma np_arange_default:
  "np_arange 0 80 (round53 (1 / 50)) = Inr (map (arange_fill 0 (round53 (1 / 50))) [0..<4000])"
proof -
  have "round53 (1 / 50) \<noteq> 0" by (simp add: round53_002)
  then show ?thesis
    using np_arange_Inr [of "round53 (1 / 50)" 0 80] by (simp add: arange_length_default)
qed

lemma subscript_default:
  "subscript (constants (HH_init None Map.empty)) ''duration'' = Inr 80"
  "subscript (constants (HH_init None Map.empty)) ''time_step'' = Inr (round53 (1 / 50))"
  "subscript (constants (HH_init None Map.empty)) ''padding'' = Inr 10"
  by (simp_all add: HH_init_def default_constants_def get_def subscript_def round53_80
      round53_small)

lemma subscript_small:
  "subscript dict_small ''duration'' = Inr 2" "subscript dict_small ''time_step'' = Inr 1"
  "subscript dict_small ''padding'' = Inr 5"
  by (simp_all add: dict_small_def subscript_def round53_small)

lemma np_arange_small: "np_arange 0 2 1 = Inr (map (arange_fill 0 1) [0..<2])"
proof -
  have "arange_length 0 2 1 = 2"
    by (simp add: arange_length_def fsub_def fdiv_def round53_small)
  then show ?thesis using np_arange_Inr [of 1 0 2] by simp
qed

lemma round53_11: "round53 (11 / 10) = 2476979795053773 / 2251799813685248"
  by (subst round53_at [where e = 0]) (simp_all add: rne_def Let_def power_int_minus)

lemma round53_01: "round53 (1 / 10) = 3602879701896397 / 36028797018963968"
  by (subst round53_at [where e = "- 4"]) (simp_all add: rne_def Let_def power_int_minus)

lemma round53_02: "round53 (1 / 5) = 3602879701896397 / 18014398509481984"
  by (subst round53_at [where e = "- 3"]) (simp_all add: rne_def Let_def power_int_minus)

lemma round53_11_again:
  "round53 (2476979795053773 / 2251799813685248) = 2476979795053773 / 2251799813685248"
  by (subst round53_at [where e = 0]) (simp_all add: rne_def Let_def power_int_minus)

lemma round53_01_again:
  "round53 (3602879701896397 / 36028797018963968) = 3602879701896397 / 36028797018963968"
  by (subst round53_at [where e = "- 4"]) (simp_all add: rne_def Let_def power_int_minus)

lemma fdiv_11_01:
  "fdiv (2476979795053773 / 2251799813685248) (3602879701896397 / 36028797018963968) = 11"
  unfolding fdiv_def
  by (subst round53_at [where e = 3]) (simp_all add: rne_def Let_def power_int_minus)

lemma fsub_11_02:
  "fsub (2476979795053773 / 2251799813685248) (3602879701896397 / 18014398509481984)
     = 4053239664633447 / 4503599627370496"
  unfolding fsub_def
  by (subst round53_at [where e = "- 1"]) (simp_all add: rne_def Let_def power_int_minus)

lemma fmul_9_01:
  "fmul 9 (3602879701896397 / 36028797018963968) = 8106479329266893 / 9007199254740992"
  unfolding fmul_def
  by (subst round53_at [where e = "- 1"]) (simp_all add: rne_def Let_def power_int_minus)

lemma round53_09:
  "round53 (8106479329266893 / 9007199254740992) = 8106479329266893 / 9007199254740992"
  by (subst round53_at [where e = "- 1"]) (simp_all add: rne_def Let_def power_int_minus)

lemma np_arange_11_01:
  "np_arange 0 (round53 (11 / 10)) (round53 (1 / 10))
     = Inr (map (arange_fill 0 (round53 (1 / 10))) [0..<11])"
proof -
  have "arange_length 0 (round53 (11 / 10)) (round53 (1 / 10)) = 11"
    by (simp add: arange_length_def fsub_def round53_11 round53_01 round53_11_again fdiv_11_01)
  then show ?thesis
    using np_arange_Inr [of "round53 (1 / 10)" 0 "round53 (11 / 10)"]
    by (simp add: round53_01)
qed

lemma arange_fill_01_9:
  "arange_fill 0 (round53 (1 / 10)) 9 = 8106479329266893 / 9007199254740992"
  by (simp add: arange_fill_def Let_def fadd_def fsub_def round53_01 round53_01_again
      fmul_9_01 round53_09)

text \<open>
  C3, as stated, fails: the length of the trace is not arbitrary. Under the default
  constants the mask has 4000 entries, and a trace of three samples makes the boolean
  indexing raise.
\<close>

theorem summarize_wrong_length_raises:
  "summarize [\<lambda>b :: unit. - 70, \<lambda>b. - 70, \<lambda>b. - 70] (constants (HH_init None Map.empty))
   = Inl IndexError"
  by (simp add: summarize_def subscript_default np_arange_default bool_index_def)

text \<open>
  C3, amended: for every constants bundle for which the time grid
  \<open>np.arange(0, duration, time_step)\<close> exists, whatever its windows, and every trace
  whose time axis has the length of that grid, \<open>summarize\<close> returns an array whose last
  axis has length exactly \<open>7\<close>; its batch axes are those of the trace.
\<close>

theorem summarize_length_seven:
  assumes "subscript d ''duration'' = Inr T" "subscript d ''time_step'' = Inr dt"
    "subscript d ''padding'' = Inr pad"
    and "np_arange 0 T dt = Inr t" "length x = length t"
  shows "\<exists>y. summarize x d = Inr y \<and> length y = 7"
  by (simp add: summarize_eq [OF assms])

theorem summarize_length_seven_witness:
  "\<exists>y. summarize trace_two dict_small = Inr y \<and> length y = 7"
  using summarize_length_seven [OF subscript_small np_arange_small, of trace_two]
  by (simp add: trace_two_def)


text \<open>
  C6: \<open>summarize\<close> rebuilds the grid \<open>np.arange(0, duration, dt)\<close> of the integrator;
  on a trace returned by \<open>voltage_trace\<close> for the same constants (or on any trace of the
  grid's length) it returns, in this order, the spike count, the mean and the standard
  deviation of exactly the samples whose grid time \<open>t\<close> satisfies
  \<open>padding / 2 \<le> t < padding\<close>, and the mean, variance, skewness and kurtosis of
  exactly the samples with \<open>padding \<le> t < duration - padding\<close>. Grid times, the
  quotient and the difference are the floats the source computes.
\<close>

theorem summarize_windows:
  assumes "subscript d ''duration'' = Inr T" "subscript d ''time_step'' = Inr dt"
    "subscript d ''padding'' = Inr pad"
  shows "voltage_trace th d randn = Inr x
         \<or> (\<exists>t. np_arange 0 T dt = Inr t \<and> length x = length t) \<longrightarrow>
     np_arange 0 T dt = Inr (map (arange_fill 0 dt) [0..<length x])
     \<and> summarize x d =
      Inr [\<lambda>b. Some (real (spike_count (row x b))),
           \<lambda>b. np_mean (row (nths x {k. fdiv pad 2 \<le> arange_fill 0 dt k \<and> arange_fill 0 dt k < pad}) b),
           \<lambda>b. np_std (row (nths x {k. fdiv pad 2 \<le> arange_fill 0 dt k \<and> arange_fill 0 dt k < pad}) b),
           \<lambda>b. np_mean (row (nths x {k. pad \<le> arange_fill 0 dt k \<and> arange_fill 0 dt k < fsub T pad}) b),
           \<lambda>b. np_var (row (nths x {k. pad \<le> arange_fill 0 dt k \<and> arange_fill 0 dt k < fsub T pad}) b),
           \<lambda>b. sp_skew (row (nths x {k. pad \<le> arange_fill 0 dt k \<and> arange_fill 0 dt k < fsub T pad}) b),
           \<lambda>b. sp_kurtosis (row (nths x {k. pad \<le> arange_fill 0 dt k \<and> arange_fill 0 dt k < fsub T pad}) b)]"
proof
  assume "voltage_trace th d randn = Inr x
         \<or> (\<exists>t. np_arange 0 T dt = Inr t \<and> length x = length t)"
  with voltage_trace_Inr_grid [OF _ assms(1,2)]
  obtain t where t: "np_arange 0 T dt = Inr t" and l: "length x = length t" by blast
  from np_arange_grid [OF t] l have "t = map (arange_fill 0 dt) [0..<length x]" by simp
  with t have "np_arange 0 T dt = Inr (map (arange_fill 0 dt) [0..<length x])" by simp
  with summarize_eq [OF assms t l] show "np_arange 0 T dt = Inr (map (arange_fill 0 dt) [0..<length x])
     \<and> summarize x d =
      Inr [\<lambda>b. Some (real (spike_count (row x b))),
           \<lambda>b. np_mean (row (nths x {k. fdiv pad 2 \<le> arange_fill 0 dt k \<and> arange_fill 0 dt k < pad}) b),
           \<lambda>b. np_std (row (nths x {k. fdiv pad 2 \<le> arange_fill 0 dt k \<and> arange_fill 0 dt k < pad}) b),
           \<lambda>b. np_mean (row (nths x {k. pad \<le> arange_fill 0 dt k \<and> arange_fill 0 dt k < fsub T pad}) b),
           \<lambda>b. np_var (row (nths x {k. pad \<le> arange_fill 0 dt k \<and> arange_fill 0 dt k < fsub T pad}) b),
           \<lambda>b. sp_skew (row (nths x {k. pad \<le> arange_fill 0 dt k \<and> arange_fill 0 dt k < fsub T pad}) b),
           \<lambda>b. sp_kurtosis (row (nths x {k. pad \<le> arange_fill 0 dt k \<and> arange_fill 0 dt k < fsub T pad}) b)]"
    by blast
qed

theorem summarize_windows_witness:
  "summarize trace_eleven dict_11_01 =
      Inr [\<lambda>b. Some (real (spike_count (row trace_eleven b))),
           \<lambda>b. np_mean (row (nths trace_eleven {k. fdiv (round53 (1 / 5)) 2 \<le> arange_fill 0 (round53 (1 / 10)) k \<and> arange_fill 0 (round53 (1 / 10)) k < round53 (1 / 5)}) b),
           \<lambda>b. np_std (row (nths trace_eleven {k. fdiv (round53 (1 / 5)) 2 \<le> arange_fill 0 (round53 (1 / 10)) k \<and> arange_fill 0 (round53 (1 / 10)) k < round53 (1 / 5)}) b),
           \<lambda>b. np_mean (row (nths trace_eleven {k. round53 (1 / 5) \<le> arange_fill 0 (round53 (1 / 10)) k \<and> arange_fill 0 (round53 (1 / 10)) k < fsub (round53 (11 / 10)) (round53 (1 / 5))}) b),
           \<lambda>b. np_var (row (nths trace_eleven {k. round53 (1 / 5) \<le> arange_fill 0 (round53 (1 / 10)) k \<and> arange_fill 0 (round53 (1 / 10)) k < fsub (round53 (11 / 10)) (round53 (1 / 5))}) b),
           \<lambda>b. sp_skew (row (nths trace_eleven {k. round53 (1 / 5) \<le> arange_fill 0 (round53 (1 / 10)) k \<and> arange_fill 0 (round53 (1 / 10)) k < fsub (round53 (11 / 10)) (round53 (1 / 5))}) b),
           \<lambda>b. sp_kurtosis (row (nths trace_eleven {k. round53 (1 / 5) \<le> arange_fill 0 (round53 (1 / 10)) k \<and> arange_fill 0 (round53 (1 / 10)) k < fsub (round53 (11 / 10)) (round53 (1 / 5))}) b)]
   \<and> 9 \<in> {k. round53 (1 / 5) \<le> arange_fill 0 (round53 (1 / 10)) k \<and> arange_fill 0 (round53 (1 / 10)) k < fsub (round53 (11 / 10)) (round53 (1 / 5))}"
proof -
  have k: "subscript dict_11_01 ''duration'' = Inr (round53 (11 / 10))"
    "subscript dict_11_01 ''time_step'' = Inr (round53 (1 / 10))"
    "subscript dict_11_01 ''padding'' = Inr (round53 (1 / 5))"
    by (simp_all add: dict_11_01_def subscript_def)
  have l: "\<exists>t. np_arange 0 (round53 (11 / 10)) (round53 (1 / 10)) = Inr t
        \<and> length trace_eleven = length t"
    by (simp add: np_arange_11_01 trace_eleven_def)
  have m: "9 \<in> {k. round53 (1 / 5) \<le> arange_fill 0 (round53 (1 / 10)) k \<and> arange_fill 0 (round53 (1 / 10)) k < fsub (round53 (11 / 10)) (round53 (1 / 5))}"
    by (simp add: arange_fill_01_9 round53_02 round53_11 fsub_11_02)
  from summarize_windows [OF k, of _ _ trace_eleven] l m show ?thesis by blast
qed

text \<open>
  C9, as stated, fails: \<open>summarize\<close> can raise under degenerate constants. With a grid of
  two points, neither of which lies in a window, a trace of three samples makes the
  boolean indexing raise.
\<close>

theorem summarize_degenerate_raises:
  "summarize trace_three dict_small = Inl IndexError"
  by (simp add: summarize_def subscript_small np_arange_small bool_index_def trace_three_def)

text \<open>
  C9, amended: when the time grid exists and the trace has its length, and no sample of
  the trace lies in the resting window, or none in the stimulus window, \<open>summarize\<close>
  still returns a vector of length \<open>7\<close> and does not raise; the statistics over the
  empty window are NaN, for every batch element.
\<close>

theorem summarize_empty_window:
  assumes "subscript d ''duration'' = Inr T" "subscript d ''time_step'' = Inr dt"
    "subscript d ''padding'' = Inr pad"
    and "np_arange 0 T dt = Inr t" "length x = length t"
  shows "\<exists>y. summarize x d = Inr y \<and> length y = 7
     \<and> ((\<forall>k<length x. \<not> (fdiv pad 2 \<le> t ! k \<and> t ! k < pad)) \<longrightarrow>
          (y ! 1) b = None \<and> (y ! 2) b = None)
     \<and> ((\<forall>k<length x. \<not> (pad \<le> t ! k \<and> t ! k < fsub T pad)) \<longrightarrow>
          (y ! 3) b = None \<and> (y ! 4) b = None \<and> (y ! 5) b = None \<and> (y ! 6) b = None)"
proof -
  let ?g = "arange_fill 0 dt"
  let ?R = "{k. fdiv pad 2 \<le> ?g k \<and> ?g k < pad}"
  let ?S = "{k. pad \<le> ?g k \<and> ?g k < fsub T pad}"
  let ?y = "[\<lambda>b. Some (real (spike_count (row x b))),
         \<lambda>b. np_mean (row (nths x ?R) b), \<lambda>b. np_std (row (nths x ?R) b),
         \<lambda>b. np_mean (row (nths x ?S) b), \<lambda>b. np_var (row (nths x ?S) b),
         \<lambda>b. sp_skew (row (nths x ?S) b), \<lambda>b. sp_kurtosis (row (nths x ?S) b)]"
  have eq: "summarize x d = Inr ?y" by (rule summarize_eq [OF assms])
  have len: "length ?y = 7" by simp
  have g: "t ! k = ?g k" if "k < length x" for k
  proof -
    from that assms(5) have "k < length t" by simp
    then have "map ?g [0..<length t] ! k = ?g k" by simp
    with np_arange_grid [OF assms(4)] show ?thesis by simp
  qed
  have r: "(?y ! 1) b = None \<and> (?y ! 2) b = None"
    if "\<forall>k<length x. \<not> (fdiv pad 2 \<le> t ! k \<and> t ! k < pad)"
  proof -
    from that g have "nths x ?R = []" unfolding nths_empty_iff by auto
    then show ?thesis by (simp add: row_def empty_reductions)
  qed
  have s: "(?y ! 3) b = None \<and> (?y ! 4) b = None \<and> (?y ! 5) b = None \<and> (?y ! 6) b = None"
    if "\<forall>k<length x. \<not> (pad \<le> t ! k \<and> t ! k < fsub T pad)"
  proof -
    from that g have "nths x ?S = []" unfolding nths_empty_iff by auto
    then show ?thesis by (simp add: row_def empty_reductions)
  qed
  from eq len r s show ?thesis by blast
qed

theorem summarize_empty_window_witness:
  "\<exists>y. summarize trace_two dict_small = Inr y \<and> length y = 7
      \<and> (y ! 1) () = None \<and> (y ! 2) () = None
      \<and> (y ! 3) () = None \<and> (y ! 4) () = None \<and> (y ! 5) () = None \<and> (y ! 6) () = None"
proof -
  let ?t = "map (arange_fill 0 1) [0..<2]"
  note k = subscript_small
  have l: "length trace_two = length ?t"
    by (simp add: trace_two_def)
  have g: "?t ! 0 = 0" "?t ! 1 = 1"
    by (simp_all add: arange_fill_def fadd_def round53_small)
  have w: "\<forall>k<length trace_two. \<not> (fdiv 5 2 \<le> ?t ! k \<and> ?t ! k < 5)"
    "\<forall>k<length trace_two. \<not> (5 \<le> ?t ! k \<and> ?t ! k < fsub 2 5)"
    using g by (auto simp add: trace_two_def less_Suc_eq fdiv_def round53_small
        simp del: nth_map map_upt_Suc upt_Suc)
  from summarize_empty_window [OF k np_arange_small l, of "()"] w show ?thesis by blast
qed

subsection \<open>The spike count\<close>

lemma length_np_diff: "length (np_diff a) = length a - 1"
  by (simp add: np_diff_def)

lemma nth_np_diff: "Suc k < length a \<Longrightarrow> np_diff a ! k = a ! Suc k - a ! k"
  by (simp add: np_diff_def nth_tl nth_butlast)

lemma np_diff_map: "np_diff a = map (\<lambda>k. a ! Suc k - a ! k) [0..<length a - 1]"
  by (rule nth_equalityI) (simp_all add: length_np_diff nth_np_diff)

lemma count_negative_map:
  "count_negative (map f ks) = length (filter (\<lambda>k. f k < 0) ks)"
  by (simp add: count_negative_def filter_map comp_def)

lemma spike_count_index:
  "spike_count xs =
     length (filter (\<lambda>k. sgn (clipped xs ! (k + 2) - clipped xs ! (k + 1))
                          - sgn (clipped xs ! (k + 1) - clipped xs ! k) < 0)
               [0..<length xs - 2])"
proof -
  let ?y = "clipped xs"
  let ?s = "np_sign (np_diff ?y)"
  have ls: "length ?s = length xs - 1"
    by (simp add: np_sign_def length_np_diff clipped_def)
  have ns: "?s ! k = sgn (?y ! Suc k - ?y ! k)" if "Suc k < length xs" for k
    using that by (simp add: np_sign_def length_np_diff nth_np_diff clipped_def)
  have "spike_count xs = count_negative (np_diff ?s)"
    by (simp add: spike_count_def clipped_def np_maximum_def)
  also have "\<dots> = length (filter (\<lambda>k. ?s ! Suc k - ?s ! k < 0) [0..<length xs - 2])"
    by (simp add: np_diff_map [of ?s] count_negative_map ls numeral_2_eq_2)
  also have "filter (\<lambda>k. ?s ! Suc k - ?s ! k < 0) [0..<length xs - 2]
      = filter (\<lambda>k. sgn (?y ! (k + 2) - ?y ! (k + 1)) - sgn (?y ! (k + 1) - ?y ! k) < 0)
          [0..<length xs - 2]"
    by (rule filter_cong) (auto simp add: ns)
  finally show ?thesis .
qed

lemma sgn_diff_neg_iff:
  fixes a b :: real
  shows "sgn b - sgn a < 0 \<longleftrightarrow> 0 \<le> a \<and> b \<le> 0 \<and> (a \<noteq> 0 \<or> b \<noteq> 0)"
  by (auto simp add: sgn_real_def)

lemma summarize_Inr_spikes:
  assumes "summarize x d = Inr y"
  shows "(y ! 0) b = Some (real (spike_count (row x b)))"
  using assms
  by (auto simp add: summarize_def bind_res_eq_Inr Let_def np_stack_last_def)

text \<open>
  C5, as stated, fails in its second half: the count is not the number of local maxima on
  every trace. On the trace \<open>0, 1, 1, 1, 0\<close> (one flat-topped bump, untouched by the
  clipping) the count is 2, while no sample is strictly above both neighbours and three
  samples are not below either neighbour.
\<close>

theorem spike_count_plateau:
  "spike_count [0, 1, 1, 1, 0] = 2
   \<and> strict_local_maxima (clipped [0, 1, 1, 1, 0]) = 0
   \<and> weak_local_maxima (clipped [0, 1, 1, 1, 0]) = 3"
  by (simp add: spike_count_def np_maximum_def np_diff_def np_sign_def count_negative_def
      strict_local_maxima_def weak_local_maxima_def clipped_def upt_rec numeral_nat)

text \<open>
  C5, amended: the spike count that \<open>summarize\<close> returns for a batch element is the
  number of time indices at which the second difference of the sign of the first
  difference of the trace clipped from below at \<open>-10\<close> is strictly negative, taken
  along the time axis. That is the number of interior samples of the clipped trace that
  are not below either neighbour and strictly above at least one of them. On a trace
  whose consecutive clipped samples always differ (a sawtooth or alternating-sign trace)
  it equals the number of local maxima of the clipped trace.
\<close>

theorem spike_count_peaks:
  "(summarize x d = Inr y \<longrightarrow> (y ! 0) b = Some (real (spike_count (row x b))))
   \<and> spike_count xs =
     length (filter (\<lambda>k. sgn (clipped xs ! (k + 2) - clipped xs ! (k + 1))
                          - sgn (clipped xs ! (k + 1) - clipped xs ! k) < 0)
               [0..<length xs - 2])
   \<and> spike_count xs =
     length (filter (\<lambda>k. clipped xs ! k \<le> clipped xs ! (k + 1)
                        \<and> clipped xs ! (k + 2) \<le> clipped xs ! (k + 1)
                        \<and> (clipped xs ! k < clipped xs ! (k + 1)
                           \<or> clipped xs ! (k + 2) < clipped xs ! (k + 1)))
               [0..<length xs - 2])
   \<and> ((\<forall>k. Suc k < length xs \<longrightarrow> clipped xs ! k \<noteq> clipped xs ! Suc k) \<longrightarrow>
        spike_count xs = strict_local_maxima (clipped xs))"
proof -
  let ?y = "clipped xs"
  have a: "spike_count xs =
     length (filter (\<lambda>k. ?y ! k \<le> ?y ! (k + 1) \<and> ?y ! (k + 2) \<le> ?y ! (k + 1)
                        \<and> (?y ! k < ?y ! (k + 1) \<or> ?y ! (k + 2) < ?y ! (k + 1)))
               [0..<length xs - 2])"
    unfolding spike_count_index sgn_diff_neg_iff
    by (rule arg_cong [where f = length], rule filter_cong) auto
  have b: "spike_count xs = strict_local_maxima ?y"
    if ne: "\<forall>k. Suc k < length xs \<longrightarrow> ?y ! k \<noteq> ?y ! Suc k"
  proof -
    have "filter (\<lambda>k. ?y ! k \<le> ?y ! (k + 1) \<and> ?y ! (k + 2) \<le> ?y ! (k + 1)
                        \<and> (?y ! k < ?y ! (k + 1) \<or> ?y ! (k + 2) < ?y ! (k + 1)))
               [0..<length xs - 2]
        = filter (\<lambda>k. ?y ! k < ?y ! (k + 1) \<and> ?y ! (k + 2) < ?y ! (k + 1)) [0..<length xs - 2]"
    proof (rule filter_cong)
      fix k assume "k \<in> set [0..<length xs - 2]"
      then have "Suc k < length xs" "Suc (Suc k) < length xs" by auto
      with ne have "?y ! k \<noteq> ?y ! Suc k" "?y ! Suc k \<noteq> ?y ! Suc (Suc k)" by blast+
      then show "(?y ! k \<le> ?y ! (k + 1) \<and> ?y ! (k + 2) \<le> ?y ! (k + 1)
                        \<and> (?y ! k < ?y ! (k + 1) \<or> ?y ! (k + 2) < ?y ! (k + 1)))
         = (?y ! k < ?y ! (k + 1) \<and> ?y ! (k + 2) < ?y ! (k + 1))"
        by (auto simp add: numeral_2_eq_2)
    qed simp
    then show ?thesis
      unfolding a by (simp add: strict_local_maxima_def clipped_def)
  qed
  show ?thesis
  proof (intro conjI impI)
    assume "summarize x d = Inr y"
    then show "(y ! 0) b = Some (real (spike_count (row x b)))"
      by (rule summarize_Inr_spikes)
  next
    show "spike_count xs =
      length (filter (\<lambda>k. sgn (?y ! (k + 2) - ?y ! (k + 1)) - sgn (?y ! (k + 1) - ?y ! k) < 0)
               [0..<length xs - 2])"
      by (rule spike_count_index)
  next
    show "spike_count xs =
     length (filter (\<lambda>k. ?y ! k \<le> ?y ! (k + 1) \<and> ?y ! (k + 2) \<le> ?y ! (k + 1)
                        \<and> (?y ! k < ?y ! (k + 1) \<or> ?y ! (k + 2) < ?y ! (k + 1)))
               [0..<length xs - 2])"
      by (rule a)
  next
    assume "\<forall>k. Suc k < length xs \<longrightarrow> ?y ! k \<noteq> ?y ! Suc k"
    then show "spike_count xs = strict_local_maxima ?y" by (rule b)
  qed
qed

theorem spike_count_peaks_witness:
  "spike_count [0, 30, - 5, 20, - 50, 10] = strict_local_maxima (clipped [0, 30, - 5, 20, - 50, 10])
   \<and> strict_local_maxima (clipped [0, 30, - 5, 20, - 50, 10]) = 2"
proof -
  have ne: "\<forall>k. Suc k < length [0 :: real, 30, - 5, 20, - 50, 10] \<longrightarrow>
        clipped [0, 30, - 5, 20, - 50, 10] ! k \<noteq> clipped [0, 30, - 5, 20, - 50, 10] ! Suc k"
    by (auto simp add: clipped_def less_Suc_eq numeral_nat)
  have v: "strict_local_maxima (clipped [0, 30, - 5, 20, - 50, 10]) = 2"
    by (simp add: strict_local_maxima_def clipped_def upt_rec numeral_nat)
  from spike_count_peaks [where xs = "[0, 30, - 5, 20, - 50, 10]" and x = "[] :: (unit \<Rightarrow> real) list"
      and d = Map.empty and y = "[]" and b = "()"]
  have "(\<forall>k. Suc k < length [0 :: real, 30, - 5, 20, - 50, 10] \<longrightarrow>
        clipped [0, 30, - 5, 20, - 50, 10] ! k \<noteq> clipped [0, 30, - 5, 20, - 50, 10] ! Suc k)
     \<longrightarrow> spike_count [0, 30, - 5, 20, - 50, 10] = strict_local_maxima (clipped [0, 30, - 5, 20, - 50, 10])"
    by (elim conjE)
  with ne v show ?thesis by blast
qed


subsection \<open>The constructor\<close>

lemma constants_HH_init:
  "constants (HH_init s kw) =
     [''duration'' \<mapsto> get kw ''duration'' 80,
      ''time_step'' \<mapsto> get kw ''time_step'' 0.02,
      ''padding'' \<mapsto> get kw ''padding'' 10,
      ''initial_voltage'' \<mapsto> get kw ''initial_voltage'' (-70),
      ''current'' \<mapsto> get kw ''current'' (0.0005 / (pi * 0.007 ^ 2))]"
  by (rule ext) (simp add: HH_init_def default_constants_def)

text \<open>
  C10: the constructor takes any keyword arguments; its constants dictionary has exactly
  the keys \<open>duration\<close>, \<open>time_step\<close>, \<open>padding\<close>, \<open>initial_voltage\<close> and
  \<open>current\<close>, each with the keyword argument's value when one is given and with the
  default (80, 0.02, 10, -70, \<open>5e-4 / (pi * 7e-3 ** 2)\<close>) otherwise; a keyword argument
  of any other name changes nothing and is not rejected; \<open>summary\<close> is \<open>True\<close>
  unless given.
\<close>

theorem HH_init_constants:
  "dom (constants (HH_init s kw))
     = {''duration'', ''time_step'', ''padding'', ''initial_voltage'', ''current''}
   \<and> constants (HH_init s kw) ''duration'' = Some (case kw ''duration'' of None \<Rightarrow> 80 | Some v \<Rightarrow> v)
   \<and> constants (HH_init s kw) ''time_step'' = Some (case kw ''time_step'' of None \<Rightarrow> 0.02 | Some v \<Rightarrow> v)
   \<and> constants (HH_init s kw) ''padding'' = Some (case kw ''padding'' of None \<Rightarrow> 10 | Some v \<Rightarrow> v)
   \<and> constants (HH_init s kw) ''initial_voltage''
       = Some (case kw ''initial_voltage'' of None \<Rightarrow> - 70 | Some v \<Rightarrow> v)
   \<and> constants (HH_init s kw) ''current''
       = Some (case kw ''current'' of None \<Rightarrow> 0.0005 / (pi * 0.007 ^ 2) | Some v \<Rightarrow> v)
   \<and> (k \<notin> {''duration'', ''time_step'', ''padding'', ''initial_voltage'', ''current''} \<longrightarrow>
        constants (HH_init s (kw(k \<mapsto> v))) = constants (HH_init s kw))
   \<and> summary (HH_init None kw) = True
   \<and> summary (HH_init (Some flag) kw) = flag"
proof -
  have d: "dom (constants (HH_init s kw))
     = {''duration'', ''time_step'', ''padding'', ''initial_voltage'', ''current''}"
    unfolding constants_HH_init by auto
  have u: "constants (HH_init s (kw(k \<mapsto> v))) = constants (HH_init s kw)"
    if "k \<notin> {''duration'', ''time_step'', ''padding'', ''initial_voltage'', ''current''}"
    using that unfolding constants_HH_init by (auto simp add: get_def)
  have g: "\<And>key dflt. get kw key dflt = (case kw key of None \<Rightarrow> dflt | Some v \<Rightarrow> v)"
    by (simp add: get_def)
  have v: "constants (HH_init s kw) ''duration'' = Some (get kw ''duration'' 80)"
    "constants (HH_init s kw) ''time_step'' = Some (get kw ''time_step'' 0.02)"
    "constants (HH_init s kw) ''padding'' = Some (get kw ''padding'' 10)"
    "constants (HH_init s kw) ''initial_voltage'' = Some (get kw ''initial_voltage'' (- 70))"
    "constants (HH_init s kw) ''current'' = Some (get kw ''current'' (0.0005 / (pi * 0.007 ^ 2)))"
    unfolding constants_HH_init by simp_all
  have f: "summary (HH_init None kw) = True" "summary (HH_init (Some flag) kw) = flag"
    by (simp_all add: HH_init_def)
  from d u v [unfolded g] f show ?thesis by blast
qed

theorem HH_init_constants_witness:
  "''time_stepp'' \<notin> {''duration'', ''time_step'', ''padding'', ''initial_voltage'', ''current''}
   \<and> constants (HH_init None [''duration'' \<mapsto> 40, ''time_stepp'' \<mapsto> 0.01])
       = constants (HH_init None [''duration'' \<mapsto> 40])
   \<and> constants (HH_init None [''duration'' \<mapsto> 40]) ''time_step'' = Some 0.02
   \<and> constants (HH_init None [''duration'' \<mapsto> 40]) ''duration'' = Some 40"
  using HH_init_constants [where s = None and kw = "[''duration'' \<mapsto> 40]"
      and k = "''time_stepp''" and v = "0.01"]
  by simp

end
